theory Spec2Isabelle
  imports Complex_Main
begin

section \<open>JavaScript numbers\<close>

text \<open>
  Every \<^verbatim>\<open>number\<close> of \<^verbatim>\<open>App.tsx\<close> is an IEEE binary64 value. The model keeps what the
  program's arithmetic can observe of that format: \<open>NaN\<close>, the two infinities, division
  by zero and overflow of a finite result to an infinity. A finite result that does not
  overflow is kept exact: rounding to 53 significant bits is not modelled, and neither is
  the sign of zero.
\<close>

datatype jsnum = Fin real | PInf | NInf | NaN

text \<open>
  A real result whose magnitude reaches \<open>2^1024 - 2^970\<close> (half an ulp above the largest
  finite double) becomes an infinity.
\<close>

definition overflow_threshold :: real where
  "overflow_threshold = 2 ^ 1024 - 2 ^ 970"

definition fin :: "real \<Rightarrow> jsnum" where
  "fin r = (if overflow_threshold \<le> r then PInf
            else if r \<le> - overflow_threshold then NInf
            else Fin r)"

fun isFinite :: "jsnum \<Rightarrow> bool" where
  "isFinite (Fin r) = True"
| "isFinite PInf = False"
| "isFinite NInf = False"
| "isFinite NaN = False"

instantiation jsnum :: "{plus, minus, times, inverse}"
begin

fun plus_jsnum :: "jsnum \<Rightarrow> jsnum \<Rightarrow> jsnum" where
  "plus_jsnum NaN y = NaN"
| "plus_jsnum x NaN = NaN"
| "plus_jsnum (Fin a) (Fin b) = fin (a + b)"
| "plus_jsnum PInf NInf = NaN"
| "plus_jsnum NInf PInf = NaN"
| "plus_jsnum PInf y = PInf"
| "plus_jsnum NInf y = NInf"
| "plus_jsnum (Fin a) y = y"

fun minus_jsnum :: "jsnum \<Rightarrow> jsnum \<Rightarrow> jsnum" where
  "minus_jsnum NaN y = NaN"
| "minus_jsnum x NaN = NaN"
| "minus_jsnum (Fin a) (Fin b) = fin (a - b)"
| "minus_jsnum PInf PInf = NaN"
| "minus_jsnum NInf NInf = NaN"
| "minus_jsnum PInf y = PInf"
| "minus_jsnum NInf y = NInf"
| "minus_jsnum (Fin a) PInf = NInf"
| "minus_jsnum (Fin a) NInf = PInf"

text \<open>The sign of an infinite product; zero times an infinity is \<open>NaN\<close>.\<close>

definition signed_inf :: "real \<Rightarrow> jsnum" where
  "signed_inf s = (if s = 0 then NaN else if 0 < s then PInf else NInf)"

fun times_jsnum :: "jsnum \<Rightarrow> jsnum \<Rightarrow> jsnum" where
  "times_jsnum NaN y = NaN"
| "times_jsnum x NaN = NaN"
| "times_jsnum (Fin a) (Fin b) = fin (a * b)"
| "times_jsnum (Fin a) PInf = signed_inf a"
| "times_jsnum (Fin a) NInf = signed_inf (- a)"
| "times_jsnum PInf (Fin b) = signed_inf b"
| "times_jsnum NInf (Fin b) = signed_inf (- b)"
| "times_jsnum PInf PInf = PInf"
| "times_jsnum NInf NInf = PInf"
| "times_jsnum PInf NInf = NInf"
| "times_jsnum NInf PInf = NInf"

text \<open>
  Division: \<open>0 / 0\<close> and \<open>\<infinity> / \<infinity>\<close> are \<open>NaN\<close>, a non-zero finite number over zero is an
  infinity (the zero divisor is taken as \<open>+0\<close>), a finite number over an infinity is zero.
\<close>

fun divide_jsnum :: "jsnum \<Rightarrow> jsnum \<Rightarrow> jsnum" where
  "divide_jsnum NaN y = NaN"
| "divide_jsnum x NaN = NaN"
| "divide_jsnum (Fin a) (Fin b) = (if b = 0 then signed_inf a else fin (a / b))"
| "divide_jsnum (Fin a) PInf = Fin 0"
| "divide_jsnum (Fin a) NInf = Fin 0"
| "divide_jsnum PInf (Fin b) = (if 0 \<le> b then PInf else NInf)"
| "divide_jsnum NInf (Fin b) = (if 0 \<le> b then NInf else PInf)"
| "divide_jsnum PInf y = NaN"
| "divide_jsnum NInf y = NaN"

definition inverse_jsnum :: "jsnum \<Rightarrow> jsnum" where
  "inverse_jsnum x = divide (Fin 1) x"

instance ..

end

text \<open>The comparison \<^verbatim>\<open><\<close> of two numbers; every comparison with \<open>NaN\<close> is false.\<close>

fun js_lt :: "jsnum \<Rightarrow> jsnum \<Rightarrow> bool" where
  "js_lt NaN y = False"
| "js_lt x NaN = False"
| "js_lt (Fin a) (Fin b) = (a < b)"
| "js_lt NInf NInf = False"
| "js_lt NInf y = True"
| "js_lt x PInf = (x \<noteq> PInf)"
| "js_lt x NInf = False"
| "js_lt PInf y = False"

definition js_le :: "jsnum \<Rightarrow> jsnum \<Rightarrow> bool" where
  "js_le x y = (js_lt x y \<or> (x = y \<and> x \<noteq> NaN))"

fun Math_floor :: "jsnum \<Rightarrow> jsnum" where
  "Math_floor (Fin r) = Fin (of_int \<lfloor>r\<rfloor>)"
| "Math_floor x = x"

text \<open>
  \<^verbatim>\<open>Math.min(...xs)\<close> and \<^verbatim>\<open>Math.max(...xs)\<close>: with no argument the results are
  \<open>+\<infinity>\<close> and \<open>-\<infinity>\<close>; one \<open>NaN\<close> argument makes the result \<open>NaN\<close>; otherwise the least
  (greatest) argument.
\<close>

definition Math_min :: "jsnum list \<Rightarrow> jsnum" where
  "Math_min xs = (if NaN \<in> set xs then NaN
                  else fold (\<lambda>x lowest. if js_lt x lowest then x else lowest) xs PInf)"

definition Math_max :: "jsnum list \<Rightarrow> jsnum" where
  "Math_max xs = (if NaN \<in> set xs then NaN
                  else fold (\<lambda>x highest. if js_lt highest x then x else highest) xs NInf)"

subsection \<open>Numbers in template literals\<close>

text \<open>
  The template literal of \<^verbatim>\<open>interpolateColor\<close> converts each channel with
  \<^verbatim>\<open>Number::toString\<close>. Every channel is a result of \<^verbatim>\<open>Math.floor\<close>, so the conversion is
  modelled for \<open>NaN\<close>, the infinities and integral values: decimal digits below \<open>10^21\<close>,
  exponent notation from there on.
\<close>

fun digits10 :: "nat \<Rightarrow> string" where
  "digits10 n = (if n < 10 then [''0123456789'' ! n]
                 else digits10 (n div 10) @ [''0123456789'' ! (n mod 10)])"

declare digits10.simps [simp del]

definition strip_zeros :: "string \<Rightarrow> string" where
  "strip_zeros ds = rev (dropWhile (\<lambda>c. c = CHR ''0'') (rev ds))"

definition natToString :: "nat \<Rightarrow> string" where
  "natToString n =
     (let ds = digits10 n in
      if n < 10 ^ 21 then ds
      else (case strip_zeros (tl ds) of
              [] \<Rightarrow> [hd ds]
            | fs \<Rightarrow> hd ds # CHR ''.'' # fs) @ ''e+'' @ digits10 (length ds - 1))"

fun numberToString :: "jsnum \<Rightarrow> string" where
  "numberToString NaN = ''NaN''"
| "numberToString PInf = ''Infinity''"
| "numberToString NInf = ''-Infinity''"
| "numberToString (Fin r) =
     (if r < 0 then ''-'' @ natToString (nat \<lfloor>- r\<rfloor>) else natToString (nat \<lfloor>r\<rfloor>))"

section \<open>ColorScale: \<^verbatim>\<open>interpolateColor\<close>\<close>

text \<open>
  \<^verbatim>\<open>const normalizedValue = (value - min) / (max - min);\<close> followed by the three
  channels, each floored, and the template literal \<^verbatim>\<open>rgb(${red},${green},${blue})\<close>.
  There is no test of \<^verbatim>\<open>max - min\<close> against zero and no clamping in the source.
\<close>

definition normalizedValue :: "jsnum \<Rightarrow> jsnum \<Rightarrow> jsnum \<Rightarrow> jsnum" where
  "normalizedValue v mn mx = (v - mn) / (mx - mn)"

definition red :: "jsnum \<Rightarrow> jsnum \<Rightarrow> jsnum \<Rightarrow> jsnum" where
  "red v mn mx = Math_floor (Fin 128 + (Fin 255 - Fin 128) * normalizedValue v mn mx)"

definition green :: "jsnum \<Rightarrow> jsnum \<Rightarrow> jsnum \<Rightarrow> jsnum" where
  "green v mn mx =
     Math_floor (Fin 64 + (Fin 255 - Fin 64) * (Fin 1 - normalizedValue v mn mx))"

definition blue :: "jsnum \<Rightarrow> jsnum \<Rightarrow> jsnum \<Rightarrow> jsnum" where
  "blue v mn mx =
     Math_floor (Fin 26 + (Fin 255 - Fin 26) * (Fin 1 - normalizedValue v mn mx))"

definition interpolateColor :: "jsnum \<Rightarrow> jsnum \<Rightarrow> jsnum \<Rightarrow> string" where
  "interpolateColor v mn mx =
     ''rgb('' @ numberToString (red v mn mx) @ '','' @ numberToString (green v mn mx)
       @ '','' @ numberToString (blue v mn mx) @ '')''"

section \<open>MetricStore: the \<^verbatim>\<open>StateSales\<close> object and the \<^verbatim>\<open>searchData\<close> handler\<close>

text \<open>
  \<^verbatim>\<open>interface StateSales { [state: string]: number }\<close>, created as \<^verbatim>\<open>{}\<close>. The map holds
  the object's own properties. An object literal inherits from \<^verbatim>\<open>Object.prototype\<close>: reading
  a key that is not an own property but names a member of the prototype yields that member
  (a function, or the prototype itself for \<^verbatim>\<open>__proto__\<close>), and assigning a number to
  \<^verbatim>\<open>__proto__\<close> creates no property.
\<close>

type_synonym StateSales = "string \<rightharpoonup> jsnum"

datatype jsval = Undefined | Number jsnum | Inherited

definition Object_prototype_keys :: "string list" where
  "Object_prototype_keys =
     [''constructor'', ''hasOwnProperty'', ''isPrototypeOf'', ''propertyIsEnumerable'',
      ''toLocaleString'', ''toString'', ''valueOf'', ''__proto__'', ''__defineGetter__'',
      ''__defineSetter__'', ''__lookupGetter__'', ''__lookupSetter__'']"

definition getProp :: "StateSales \<Rightarrow> string \<Rightarrow> jsval" where
  "getProp obj k =
     (case obj k of
        Some v \<Rightarrow> Number v
      | None \<Rightarrow> if k \<in> set Object_prototype_keys then Inherited else Undefined)"

definition setProp :: "StateSales \<Rightarrow> string \<Rightarrow> jsnum \<Rightarrow> StateSales" where
  "setProp obj k v = (if k = ''__proto__'' then obj else obj(k \<mapsto> v))"

text \<open>Truthiness (\<^verbatim>\<open>ToBoolean\<close>) and the coercion applied by \<^verbatim>\<open>value - min\<close> (\<^verbatim>\<open>ToNumber\<close>).\<close>

fun truthy :: "jsval \<Rightarrow> bool" where
  "truthy Undefined = False"
| "truthy (Number n) = (n \<noteq> Fin 0 \<and> n \<noteq> NaN)"
| "truthy Inherited = True"

fun ToNumber :: "jsval \<Rightarrow> jsnum" where
  "ToNumber Undefined = NaN"
| "ToNumber (Number n) = n"
| "ToNumber Inherited = NaN"

section \<open>Features, the embed and the component state\<close>

text \<open>
  A GeoJSON feature as the two handlers read it: \<^verbatim>\<open>properties\<close> may be null, and \<^verbatim>\<open>name\<close>
  may be missing from it.
\<close>

record properties =
  name :: "string option"

record feature =
  properties :: "properties option"

text \<open>\<^verbatim>\<open>x || ''\<close> on an optional string: undefined and the empty string are both falsy.\<close>

fun or_empty :: "string option \<Rightarrow> string" where
  "or_empty None = []"
| "or_empty (Some s) = (if s = [] then [] else s)"

text \<open>\<^verbatim>\<open>feature?.properties?.name || ''\<close>\<close>

definition featureName :: "feature option \<Rightarrow> string" where
  "featureName feature = or_empty (Option.bind (Option.bind feature properties) name)"

text \<open>
  The host event the two handlers build: \<^verbatim>\<open>HostEvent.UpdateRuntimeFilters\<close> with one
  filter on the column \<^verbatim>\<open>Store State\<close> and the operator \<^verbatim>\<open>RuntimeFilterOp.IN\<close>.
\<close>

datatype RuntimeFilterOp = IN

record runtime_filter =
  columnName :: string
  operator :: RuntimeFilterOp
  filter_values :: "string list"

datatype HostEvent = UpdateRuntimeFilters "runtime_filter list"

text \<open>
  Modelled from the spec: the handle of the embed collaborator. The embed belongs to the
  embed SDK, which is not part of the repository's source; the source only holds the ref
  that receives the handle and calls \<^verbatim>\<open>trigger\<close> on it. The spec distinguishes an embed that
  has finished initializing from one that has not (\<open>ready\<close>); \<open>triggered\<close> is the list of
  commands the embed has accepted.
\<close>

record embed =
  ready :: bool
  triggered :: "HostEvent list"

text \<open>
  Modelled from the spec: \<^verbatim>\<open>trigger\<close> of the embed SDK, missing from the source. The spec
  makes commands fire-and-forget, without acknowledgment or retry: a command that reaches an
  embed which is not yet ready is dropped, neither queued nor answered with an error, and a
  ready embed accepts it. The handlers ignore the promise that \<^verbatim>\<open>trigger\<close> returns.
\<close>

definition trigger :: "embed \<Rightarrow> HostEvent \<Rightarrow> embed" where
  "trigger e ev = (if ready e then e\<lparr>triggered := triggered e @ [ev]\<rparr> else e)"

text \<open>
  The state of \<^verbatim>\<open>App\<close>: the four \<^verbatim>\<open>useState\<close> cells the claims are about and the two
  refs. \<open>ref_zIndex\<close> is \<open>None\<close> while \<^verbatim>\<open>ref.current\<close> is null and otherwise the
  \<^verbatim>\<open>style.zIndex\<close> of the panel; \<open>embedRef_current\<close> is \<open>None\<close> while
  \<^verbatim>\<open>embedRef.current\<close> is null, that is before the \<^verbatim>\<open>LiveboardEmbed\<close> component, which is
  rendered unconditionally, has stored its handle. A stored handle says nothing about
  readiness: the embed finishes initializing later.
\<close>

record app_state =
  selectedStates :: "string list"
  stateSales :: StateSales
  minSales :: jsnum
  maxSales :: jsnum
  ref_zIndex :: "string option"
  embedRef_current :: "embed option"

text \<open>The state of the first render: the \<^verbatim>\<open>useState\<close> initial values, both refs null.\<close>

definition initialState :: app_state where
  "initialState =
     \<lparr>selectedStates = [], stateSales = Map.empty, minSales = Fin 0, maxSales = Fin 0,
      ref_zIndex = None, embedRef_current = None\<rparr>"

subsection \<open>The \<^verbatim>\<open>searchData\<close> response handler\<close>

text \<open>
  The body of \<^verbatim>\<open>forEach\<close> for one row, on the two locals \<^verbatim>\<open>salesData\<close> and
  \<^verbatim>\<open>salesValues\<close>, and the handler on \<^verbatim>\<open>response.contents[0].data_rows\<close>.
\<close>

definition forEach_row ::
  "string \<times> jsnum \<Rightarrow> StateSales \<times> jsnum list \<Rightarrow> StateSales \<times> jsnum list" where
  "forEach_row row acc =
     (case (row, acc) of
        ((stateName, salesValue), (salesData, salesValues)) \<Rightarrow>
          (setProp salesData stateName salesValue, salesValues @ [salesValue]))"

definition onSearchData :: "(string \<times> jsnum) list \<Rightarrow> app_state \<Rightarrow> app_state" where
  "onSearchData data_rows st =
     (case fold forEach_row data_rows (Map.empty, []) of
        (salesData, salesValues) \<Rightarrow>
          st\<lparr>stateSales := salesData,
             minSales := Math_min salesValues,
             maxSales := Math_max salesValues\<rparr>)"

section \<open>SelectionSet: the click handler of \<^verbatim>\<open>onEachState\<close>\<close>

text \<open>The updater passed to \<^verbatim>\<open>setSelectedStates\<close>.\<close>

definition toggle :: "string \<Rightarrow> string list \<Rightarrow> string list" where
  "toggle stateName prevSelectedStates =
     (if stateName \<in> set prevSelectedStates
      then filter (\<lambda>name. name \<noteq> stateName) prevSelectedStates
      else prevSelectedStates @ [stateName])"

definition click :: "feature \<Rightarrow> app_state \<Rightarrow> app_state" where
  "click feature st =
     (let stateName = featureName (Some feature)
      in st\<lparr>selectedStates := toggle stateName (selectedStates st)\<rparr>)"

section \<open>RegionStyler: \<^verbatim>\<open>stateStyle\<close>\<close>

text \<open>
  The fill color is first chosen by the truthiness of the looked-up value and then
  overwritten when the region is selected; the other four fields are constants.
  \<^verbatim>\<open>interpolateColor\<close> is declared on numbers: whatever the lookup returned reaches the
  subtraction \<^verbatim>\<open>value - min\<close>, which coerces it, hence \<open>ToNumber\<close> at the call.
\<close>

record PathOptions =
  fillColor :: string
  weight :: jsnum
  opacity :: jsnum
  color :: string
  fillOpacity :: jsnum

definition stateStyle :: "app_state \<Rightarrow> feature option \<Rightarrow> PathOptions" where
  "stateStyle st feature =
     (let stateName = featureName feature;
          salesValue = getProp (stateSales st) stateName;
          fillColor0 = (if truthy salesValue
                        then interpolateColor (ToNumber salesValue) (minSales st) (maxSales st)
                        else ''#3388ff'');
          fillColor1 = (if stateName \<in> set (selectedStates st) then ''#cccccc'' else fillColor0)
      in \<lparr>fillColor = fillColor1, weight = Fin 2, opacity = Fin 1, color = ''white'',
          fillOpacity = Fin (7 / 10)\<rparr>)"

section \<open>FilterSync: \<^verbatim>\<open>showLiveboard\<close> and \<^verbatim>\<open>hideLiveboard\<close>\<close>

text \<open>
  Both handlers guard \<^verbatim>\<open>ref.current\<close> and then call \<^verbatim>\<open>embedRef.current.trigger\<close> without a
  guard: on a null \<^verbatim>\<open>embedRef.current\<close> the property access throws a \<^verbatim>\<open>TypeError\<close>, after
  the z-index has been written and, in \<^verbatim>\<open>hideLiveboard\<close>, before \<^verbatim>\<open>setSelectedStates([])\<close>.
  The result is the state left behind and the error thrown, if any.
\<close>

datatype js_error = TypeError

definition set_zIndex :: "string \<Rightarrow> app_state \<Rightarrow> app_state" where
  "set_zIndex z st =
     (case ref_zIndex st of None \<Rightarrow> st | Some old \<Rightarrow> st\<lparr>ref_zIndex := Some z\<rparr>)"

definition store_state_filter :: "string list \<Rightarrow> HostEvent" where
  "store_state_filter vs =
     UpdateRuntimeFilters
       [\<lparr>columnName = ''Store State'', operator = IN, filter_values = vs\<rparr>]"

definition showLiveboard :: "app_state \<Rightarrow> app_state \<times> js_error option" where
  "showLiveboard st =
     (let st1 = set_zIndex ''99999'' st in
      case embedRef_current st1 of
        None \<Rightarrow> (st1, Some TypeError)
      | Some e \<Rightarrow>
          (st1\<lparr>embedRef_current :=
                 Some (trigger e (store_state_filter (selectedStates st1)))\<rparr>, None))"

definition hideLiveboard :: "app_state \<Rightarrow> app_state \<times> js_error option" where
  "hideLiveboard st =
     (let st1 = set_zIndex ''0'' st in
      case embedRef_current st1 of
        None \<Rightarrow> (st1, Some TypeError)
      | Some e \<Rightarrow>
          (st1\<lparr>embedRef_current := Some (trigger e (store_state_filter [])),
               selectedStates := []\<rparr>, None))"

section \<open>Example inputs\<close>

definition texas :: feature where
  "texas = \<lparr>properties = Some \<lparr>name = Some ''Texas''\<rparr>\<rparr>"

definition nevada :: feature where
  "nevada = \<lparr>properties = Some \<lparr>name = Some ''Nevada''\<rparr>\<rparr>"

text \<open>A feature whose properties lack \<^verbatim>\<open>name\<close>, and one whose \<^verbatim>\<open>properties\<close> is null.\<close>

definition nameless :: feature where
  "nameless = \<lparr>properties = Some \<lparr>name = None\<rparr>\<rparr>"

definition bare :: feature where
  "bare = \<lparr>properties = None\<rparr>"

definition duplicate_rows :: "(string \<times> jsnum) list" where
  "duplicate_rows = [(''A'', Fin 10), (''B'', Fin 30), (''A'', Fin 20)]"

definition scenario :: app_state where
  "scenario = onSearchData [(''Texas'', Fin 500), (''Ohio'', Fin 100)] initialState"

definition single_value :: app_state where
  "single_value = onSearchData [(''Texas'', Fin 500)] initialState"

definition zero_sales :: app_state where
  "zero_sales = onSearchData [(''Nevada'', Fin 0), (''Ohio'', Fin 10)] initialState"

definition unnamed_sales :: app_state where
  "unnamed_sales = onSearchData [('''', Fin 5), (''Ohio'', Fin 10)] initialState"

text \<open>
  States in which the panel is attached and Texas is selected: with \<^verbatim>\<open>embedRef.current\<close>
  still null, with the handle of an embed that has not finished initializing, and with the
  handle of a ready embed.
\<close>

definition embed_absent :: app_state where
  "embed_absent = initialState\<lparr>selectedStates := [''Texas''], ref_zIndex := Some ''0''\<rparr>"

definition embed_loading :: app_state where
  "embed_loading =
     embed_absent\<lparr>embedRef_current := Some \<lparr>ready = False, triggered = []\<rparr>\<rparr>"

definition embed_ready :: app_state where
  "embed_ready =
     embed_absent\<lparr>embedRef_current := Some \<lparr>ready = True, triggered = []\<rparr>\<rparr>"

section \<open>Auxiliary facts\<close>

lemmas channel_eval = red_def green_def blue_def normalizedValue_def fin_def
  overflow_threshold_def signed_inf_def

lemmas color_eval = interpolateColor_def channel_eval natToString_def digits10.simps

subsection \<open>The response handler as a whole\<close>

lemma fold_forEach_row:
  "fold forEach_row rows (m, vs) =
     (fold (\<lambda>row obj. setProp obj (fst row) (snd row)) rows m, vs @ map snd rows)"
  by (induction rows arbitrary: m vs) (simp_all add: forEach_row_def split: prod.splits)

lemma fold_setProp:
  "fold (\<lambda>row obj. setProp obj (fst row) (snd row)) rows m =
     (\<lambda>k. if k = ''__proto__'' then m k else (m ++ map_of (rev rows)) k)"
proof (induction rows arbitrary: m)
  case Nil
  show ?case by (simp add: fun_eq_iff)
next
  case (Cons row rows)
  have "fold (\<lambda>row obj. setProp obj (fst row) (snd row)) (row # rows) m =
          fold (\<lambda>row obj. setProp obj (fst row) (snd row)) rows
            (setProp m (fst row) (snd row))"
    by simp
  also have "\<dots> = (\<lambda>k. if k = ''__proto__'' then setProp m (fst row) (snd row) k
                        else (setProp m (fst row) (snd row) ++ map_of (rev rows)) k)"
    by (rule Cons.IH)
  also have "\<dots> = (\<lambda>k. if k = ''__proto__'' then m k
                        else (m ++ map_of (rev (row # rows))) k)"
    by (cases row) (auto simp add: setProp_def fun_eq_iff map_add_def split: option.splits)
  finally show ?case .
qed

lemma onSearchData_fields:
  "stateSales (onSearchData rows st) =
     (\<lambda>k. if k = ''__proto__'' then None else map_of (rev rows) k)"
  "minSales (onSearchData rows st) = Math_min (map snd rows)"
  "maxSales (onSearchData rows st) = Math_max (map snd rows)"
  "selectedStates (onSearchData rows st) = selectedStates st"
  by (simp_all add: onSearchData_def fold_forEach_row fold_setProp fun_eq_iff)

subsection \<open>Toggling keeps the selection free of duplicates\<close>

lemma distinct_toggle: "distinct S \<Longrightarrow> distinct (toggle r S)"
  by (simp add: toggle_def)

lemma distinct_fold_toggle: "distinct S \<Longrightarrow> distinct (fold toggle rs S)"
  by (induction rs arbitrary: S) (simp_all add: distinct_toggle)

lemma distinct_fold_click:
  "distinct (selectedStates st) \<Longrightarrow> distinct (selectedStates (fold click fs st))"
  by (induction fs arbitrary: st) (simp_all add: click_def distinct_toggle)

subsection \<open>Arithmetic below the overflow threshold\<close>

lemma threshold_large: "1000 < overflow_threshold"
  by (simp add: overflow_threshold_def)

lemma fin_Fin: "- overflow_threshold < r \<Longrightarrow> r < overflow_threshold \<Longrightarrow> fin r = Fin r"
  by (simp add: fin_def)

lemma fin_small: "\<bar>r\<bar> \<le> 1000 \<Longrightarrow> fin r = Fin r"
  using threshold_large by (intro fin_Fin) linarith+

lemma isFinite_fin: "isFinite (fin r) \<Longrightarrow> fin r = Fin r"
  by (simp add: fin_def split: if_splits)

lemma js_le_Fin: "js_le (Fin a) (Fin b) \<longleftrightarrow> a \<le> b"
  by (auto simp add: js_le_def)

text \<open>
  With \<open>min < max\<close>, \<open>min \<le> value \<le> max\<close> and a difference \<open>max - min\<close> that does not
  overflow, the normalized value is a finite number of the unit interval.
\<close>

lemma normalizedValue_unit:
  assumes "js_lt mn mx" and "js_le mn v" and "js_le v mx" and "isFinite (mx - mn)"
  shows "\<exists>t. normalizedValue v mn mx = Fin t \<and> 0 \<le> t \<and> t \<le> 1"
proof -
  obtain a where mn: "mn = Fin a"
    using assms(1,4) by (cases mn; cases mx) simp_all
  obtain b where mx: "mx = Fin b"
    using assms(1,4) by (cases mn; cases mx) simp_all
  obtain c where v: "v = Fin c"
    using assms(2,3) mn mx by (cases v) (simp_all add: js_le_def)
  have ab: "a < b" using assms(1) mn mx by simp
  have ac: "a \<le> c" using assms(2) mn v by (auto simp: js_le_def)
  have cb: "c \<le> b" using assms(3) mx v by (auto simp: js_le_def)
  have den: "mx - mn = Fin (b - a)"
    using assms(4) isFinite_fin [of "b - a"] by (simp add: mn mx)
  then have "fin (b - a) = Fin (b - a)" by (simp add: mn mx)
  then have bound: "b - a < overflow_threshold"
    by (simp add: fin_def split: if_splits)
  have "- overflow_threshold < c - a" using ac threshold_large by linarith
  moreover have "c - a < overflow_threshold" using cb bound by linarith
  ultimately have num: "v - mn = Fin (c - a)" by (simp add: mn v fin_Fin)
  define t where "t = (c - a) / (b - a)"
  have t0: "0 \<le> t" using ab ac by (simp add: t_def)
  have t1: "t \<le> 1" using ab cb by (simp add: t_def)
  have "fin t = Fin t" using t0 t1 by (intro fin_small) simp
  then have "normalizedValue v mn mx = Fin t"
    using ab by (simp add: normalizedValue_def num den t_def)
  then show ?thesis using t0 t1 by blast
qed

text \<open>One channel \<open>lo + (255 - lo) \<sqdot> t\<close>, floored, for \<open>t\<close> in the unit interval.\<close>

lemma scaled_channel:
  assumes "0 \<le> t" and "t \<le> 1" and "0 \<le> lo" and "lo \<le> 255"
  shows "Math_floor (Fin lo + (Fin 255 - Fin lo) * Fin t)
           = Fin (of_int \<lfloor>lo + (255 - lo) * t\<rfloor>)"
proof -
  have d: "fin (255 - lo) = Fin (255 - lo)"
    using assms by (intro fin_small) simp
  have "0 \<le> (255 - lo) * t" using assms by simp
  moreover have "(255 - lo) * t \<le> (255 - lo) * 1"
    using assms by (intro mult_left_mono) simp_all
  ultimately have p: "\<bar>(255 - lo) * t\<bar> \<le> 1000" and s: "\<bar>lo + (255 - lo) * t\<bar> \<le> 1000"
    using assms by simp_all
  show ?thesis by (simp add: d fin_small [OF p] fin_small [OF s])
qed

lemma scaled_channel_bounds:
  assumes "0 \<le> (t::real)" and "t \<le> 1" and "0 \<le> (lo::real)" and "lo \<le> 255"
  shows "0 \<le> \<lfloor>lo + (255 - lo) * t\<rfloor>" and "\<lfloor>lo + (255 - lo) * t\<rfloor> \<le> 255"
proof -
  have "0 \<le> (255 - lo) * t" using assms by simp
  then show "0 \<le> \<lfloor>lo + (255 - lo) * t\<rfloor>" using assms by simp
  have "(255 - lo) * t \<le> (255 - lo) * 1"
    using assms by (intro mult_left_mono) simp_all
  then have "lo + (255 - lo) * t \<le> 255" by simp
  then show "\<lfloor>lo + (255 - lo) * t\<rfloor> \<le> 255" by (simp add: floor_le_iff)
qed

lemma in_byte_range:
  assumes "0 \<le> t" and "t \<le> 1" and "0 \<le> lo" and "lo \<le> 255"
  shows "js_le (Fin 0) (Math_floor (Fin lo + (Fin 255 - Fin lo) * Fin t))
         \<and> js_le (Math_floor (Fin lo + (Fin 255 - Fin lo) * Fin t)) (Fin 255)"
proof -
  define n where "n = \<lfloor>lo + (255 - lo) * t\<rfloor>"
  have "0 \<le> n" and "n \<le> 255"
    using scaled_channel_bounds [OF assms] by (simp_all add: n_def)
  then have "(0::real) \<le> of_int n" and "of_int n \<le> (255::real)"
    by simp_all
  then show ?thesis
    unfolding scaled_channel [OF assms] n_def [symmetric] js_le_Fin by simp
qed

section \<open>MetricStore\<close>

text \<open>
  C1, as the handler computes it. On rows with a duplicated region the later row
  overwrites the earlier one in \<^verbatim>\<open>stateSales\<close> (the own properties are those of the
  reversed row list, the first match winning), while \<^verbatim>\<open>salesValues\<close> receives the value
  of every row, overwritten or not. So the range is the minimum and maximum over all
  loaded rows: for the rows \<open>(A,10), (B,30), (A,20)\<close> the lookup of \<open>A\<close> gives 20 and the
  range is \<open>(10,30)\<close>.
\<close>

theorem load_last_row_wins_range_over_all_rows:
  "stateSales (onSearchData rows st) =
     (\<lambda>k. if k = ''__proto__'' then None else map_of (rev rows) k)
   \<and> minSales (onSearchData rows st) = Math_min (map snd rows)
   \<and> maxSales (onSearchData rows st) = Math_max (map snd rows)
   \<and> getProp (stateSales (onSearchData duplicate_rows st)) ''A'' = Number (Fin 20)
   \<and> (minSales (onSearchData duplicate_rows st), maxSales (onSearchData duplicate_rows st))
       = (Fin 10, Fin 30)"
  by (simp add: onSearchData_fields duplicate_rows_def Math_min_def Math_max_def getProp_def)

text \<open>
  C1 as written asks for the range \<open>(20,30)\<close> over the surviving values; on the rows
  \<open>(A,10), (B,30), (A,20)\<close> the handler stores \<open>(10,30)\<close>.
\<close>

theorem duplicate_rows_range_counterexample:
  "(minSales (onSearchData duplicate_rows initialState),
    maxSales (onSearchData duplicate_rows initialState)) = (Fin 10, Fin 30)
   \<and> (minSales (onSearchData duplicate_rows initialState),
      maxSales (onSearchData duplicate_rows initialState)) \<noteq> (Fin 20, Fin 30)"
  by (simp add: onSearchData_fields duplicate_rows_def Math_min_def Math_max_def)

text \<open>
  C5 at the empty row sequence. The store is left without own properties, but
  \<^verbatim>\<open>Math.min()\<close> and \<^verbatim>\<open>Math.max()\<close> of no arguments are \<open>+\<infinity>\<close> and \<open>-\<infinity>\<close>: the range after
  an empty load is \<open>(+\<infinity>, -\<infinity>)\<close>, while the range of the store that was never loaded
  is \<open>(0,0)\<close>.
\<close>

theorem onSearchData_empty_range_infinite:
  "stateSales (onSearchData [] st) = Map.empty
   \<and> minSales (onSearchData [] st) = PInf
   \<and> maxSales (onSearchData [] st) = NInf
   \<and> (minSales initialState, maxSales initialState) = (Fin 0, Fin 0)"
  by (simp add: onSearchData_def Math_min_def Math_max_def initialState_def)

section \<open>ColorScale\<close>

text \<open>
  C2 at a degenerate range. With \<open>value = min = max = 5\<close> the normalized value is
  \<open>0 / 0\<close>, every channel is \<open>NaN\<close> and the color is the string \<^verbatim>\<open>rgb(NaN,NaN,NaN)\<close>; with
  \<open>value = 6\<close> the channels are infinite. A store loaded from the single row
  \<open>(Texas, 500)\<close> has the range \<open>(500,500)\<close>, and \<^verbatim>\<open>stateStyle\<close> paints Texas with that
  string.
\<close>

theorem interpolateColor_degenerate_range_NaN:
  "red (Fin 5) (Fin 5) (Fin 5) = NaN
   \<and> green (Fin 5) (Fin 5) (Fin 5) = NaN
   \<and> blue (Fin 5) (Fin 5) (Fin 5) = NaN
   \<and> interpolateColor (Fin 5) (Fin 5) (Fin 5) = ''rgb(NaN,NaN,NaN)''
   \<and> interpolateColor (Fin 6) (Fin 5) (Fin 5) = ''rgb(Infinity,-Infinity,-Infinity)''
   \<and> (minSales single_value, maxSales single_value) = (Fin 500, Fin 500)
   \<and> fillColor (stateStyle single_value (Some texas)) = ''rgb(NaN,NaN,NaN)''"
  by (simp add: single_value_def texas_def onSearchData_fields Math_min_def Math_max_def
      stateStyle_def featureName_def getProp_def initialState_def color_eval)

text \<open>
  C7, restricted to what the source guarantees. For \<open>min < max\<close>, a value with
  \<open>min \<le> value \<le> max\<close> and a difference \<open>max - min\<close> that is finite (no overflow), the
  red, green and blue channels each lie within \<open>[0,255]\<close>.
\<close>

theorem channels_in_range:
  assumes "js_lt mn mx" and "js_le mn v" and "js_le v mx" and "isFinite (mx - mn)"
  shows "js_le (Fin 0) (red v mn mx) \<and> js_le (red v mn mx) (Fin 255)
       \<and> js_le (Fin 0) (green v mn mx) \<and> js_le (green v mn mx) (Fin 255)
       \<and> js_le (Fin 0) (blue v mn mx) \<and> js_le (blue v mn mx) (Fin 255)"
proof -
  obtain t where t: "normalizedValue v mn mx = Fin t" "0 \<le> t" "t \<le> 1"
    using normalizedValue_unit [OF assms] by blast
  have u: "Fin 1 - Fin t = Fin (1 - t)" "0 \<le> 1 - t" "1 - t \<le> 1"
    using t by (simp_all add: fin_small)
  have "js_le (Fin 0) (red v mn mx) \<and> js_le (red v mn mx) (Fin 255)"
    unfolding red_def t(1) using in_byte_range [OF t(2,3), of 128] by simp
  moreover have "js_le (Fin 0) (green v mn mx) \<and> js_le (green v mn mx) (Fin 255)"
    unfolding green_def t(1) u(1) using in_byte_range [OF u(2,3), of 64] by simp
  moreover have "js_le (Fin 0) (blue v mn mx) \<and> js_le (blue v mn mx) (Fin 255)"
    unfolding blue_def t(1) u(1) using in_byte_range [OF u(2,3), of 26] by simp
  ultimately show ?thesis by simp
qed

text \<open>The same at \<open>value = 200\<close>, \<open>min = 100\<close>, \<open>max = 500\<close>.\<close>

theorem channels_in_range_witness:
  "js_lt (Fin 100) (Fin 500) \<and> js_le (Fin 100) (Fin 200) \<and> js_le (Fin 200) (Fin 500)
   \<and> isFinite (Fin 500 - Fin 100)
   \<and> js_le (Fin 0) (red (Fin 200) (Fin 100) (Fin 500))
   \<and> js_le (red (Fin 200) (Fin 100) (Fin 500)) (Fin 255)
   \<and> js_le (Fin 0) (green (Fin 200) (Fin 100) (Fin 500))
   \<and> js_le (green (Fin 200) (Fin 100) (Fin 500)) (Fin 255)
   \<and> js_le (Fin 0) (blue (Fin 200) (Fin 100) (Fin 500))
   \<and> js_le (blue (Fin 200) (Fin 100) (Fin 500)) (Fin 255)"
proof -
  have h: "js_lt (Fin 100) (Fin 500)" "js_le (Fin 100) (Fin 200)"
    "js_le (Fin 200) (Fin 500)" "isFinite (Fin 500 - Fin 100)"
    by (simp_all add: js_le_def fin_def overflow_threshold_def)
  show ?thesis using h channels_in_range [OF h] by simp
qed

text \<open>
  C7 as written covers values outside \<open>[min,max]\<close>; the source does not clamp. At
  \<open>value = 3\<close>, \<open>min = 0\<close>, \<open>max = 1\<close> the red channel is 509 and the green channel is -318.
\<close>

theorem channels_out_of_range_counterexample:
  "js_lt (Fin 0) (Fin 1)
   \<and> red (Fin 3) (Fin 0) (Fin 1) = Fin 509
   \<and> \<not> js_le (red (Fin 3) (Fin 0) (Fin 1)) (Fin 255)
   \<and> green (Fin 3) (Fin 0) (Fin 1) = Fin (- 318)
   \<and> \<not> js_le (Fin 0) (green (Fin 3) (Fin 0) (Fin 1))"
  by (simp add: channel_eval js_le_def)

section \<open>SelectionSet\<close>

text \<open>
  C9: after any finite sequence of toggles starting from the empty selection, and after
  any finite sequence of clicks starting from the initial state, the list of selected
  regions has no duplicate.
\<close>

theorem selection_distinct:
  "distinct (fold toggle regions [])
   \<and> distinct (selectedStates (fold click features initialState))"
  by (simp add: distinct_fold_toggle distinct_fold_click initialState_def)

text \<open>
  C3, as the remove-or-append updater behaves. Toggling twice a region that is not
  selected returns the original list. Toggling twice a region that is selected returns
  the list with that region moved to the end: the same set of regions, in general not the
  same ordered list.
\<close>

theorem toggle_twice:
  "(r \<notin> set S \<longrightarrow> toggle r (toggle r S) = S)
   \<and> (r \<in> set S \<longrightarrow> toggle r (toggle r S) = filter (\<lambda>name. name \<noteq> r) S @ [r])
   \<and> set (toggle r (toggle r S)) = set S"
  by (auto simp add: toggle_def filter_id_conv)

text \<open>Both cases on the selection \<open>[A, B]\<close>: the unselected \<open>C\<close> and the selected \<open>A\<close>.\<close>

theorem toggle_twice_witness:
  "(''C'' \<notin> set [''A'', ''B''] \<and> toggle ''C'' (toggle ''C'' [''A'', ''B'']) = [''A'', ''B''])
   \<and> (''A'' \<in> set [''A'', ''B''] \<and> toggle ''A'' (toggle ''A'' [''A'', ''B'']) = [''B'', ''A''])"
  using toggle_twice [of "''C''" "[''A'', ''B'']"] toggle_twice [of "''A''" "[''A'', ''B'']"]
  by simp

text \<open>
  C3 as written equates the ordered lists; toggling \<open>A\<close> twice in \<open>[A, B]\<close> gives
  \<open>[B, A]\<close>.
\<close>

theorem toggle_twice_counterexample:
  "toggle ''A'' (toggle ''A'' [''A'', ''B'']) = [''B'', ''A'']
   \<and> toggle ''A'' (toggle ''A'' [''A'', ''B'']) \<noteq> [''A'', ''B'']"
  by (simp add: toggle_def)

section \<open>RegionStyler\<close>

text \<open>
  C8: for every feature whose region is in the selection, \<^verbatim>\<open>stateStyle\<close> returns the fill
  color \<^verbatim>\<open>#cccccc\<close>, whatever the store holds for the region.
\<close>

theorem stateStyle_selected_overrides:
  "featureName feature \<in> set (selectedStates st)
   \<Longrightarrow> fillColor (stateStyle st feature) = ''#cccccc''"
  by (simp add: stateStyle_def Let_def)

text \<open>Texas, clicked once, with the metric entry 500.\<close>

theorem stateStyle_selected_overrides_witness:
  "featureName (Some texas) \<in> set (selectedStates (click texas scenario))
   \<and> getProp (stateSales (click texas scenario)) ''Texas'' = Number (Fin 500)
   \<and> fillColor (stateStyle (click texas scenario) (Some texas)) = ''#cccccc''"
proof -
  have h: "featureName (Some texas) \<in> set (selectedStates (click texas scenario))"
    by (simp add: click_def toggle_def scenario_def texas_def featureName_def
        onSearchData_fields initialState_def)
  have "getProp (stateSales (click texas scenario)) ''Texas'' = Number (Fin 500)"
    by (simp add: click_def scenario_def onSearchData_fields getProp_def)
  then show ?thesis using h stateStyle_selected_overrides [OF h] by simp
qed

text \<open>
  C4 at a metric value of zero. After loading the rows \<open>(Nevada, 0), (Ohio, 10)\<close> the
  store holds 0 for Nevada and Nevada is not selected, yet \<^verbatim>\<open>stateStyle\<close> returns the
  default color \<^verbatim>\<open>#3388ff\<close>, because the test \<^verbatim>\<open>salesValue ? \<dots> : \<dots>\<close> takes 0 as false;
  the interpolated color of 0 in that range is \<^verbatim>\<open>rgb(128,255,255)\<close>.
\<close>

theorem stateStyle_zero_sales_default_color:
  "featureName (Some nevada) \<notin> set (selectedStates zero_sales)
   \<and> getProp (stateSales zero_sales) (featureName (Some nevada)) = Number (Fin 0)
   \<and> fillColor (stateStyle zero_sales (Some nevada)) = ''#3388ff''
   \<and> interpolateColor (Fin 0) (minSales zero_sales) (maxSales zero_sales)
       = ''rgb(128,255,255)''"
  by (simp add: zero_sales_def nevada_def onSearchData_fields Math_min_def Math_max_def
      stateStyle_def featureName_def getProp_def initialState_def color_eval)

text \<open>
  C10: a feature without a name (no \<^verbatim>\<open>name\<close> in its properties, or no properties) has the
  empty string as its region. Clicking it toggles the empty string in the selection, so
  two nameless features act on the same entry, and styling it looks the empty string up
  in the selection and in the store.
\<close>

theorem nameless_feature_region_empty:
  assumes "Option.bind (properties f) name = None"
      and "Option.bind (properties g) name = None"
  shows "featureName (Some f) = ''''
       \<and> click f st = st\<lparr>selectedStates := toggle '''' (selectedStates st)\<rparr>
       \<and> click g st = click f st
       \<and> fillColor (stateStyle st (Some f)) =
           (if '''' \<in> set (selectedStates st) then ''#cccccc''
            else if truthy (getProp (stateSales st) '''')
            then interpolateColor (ToNumber (getProp (stateSales st) ''''))
                   (minSales st) (maxSales st)
            else ''#3388ff'')"
  using assms by (simp add: featureName_def click_def stateStyle_def Let_def)

text \<open>
  Two nameless features on a store that holds 5 under the empty string: a click on one
  selects the empty string, a click on the other removes it again.
\<close>

theorem nameless_feature_region_empty_witness:
  "Option.bind (properties nameless) name = None
   \<and> Option.bind (properties bare) name = None
   \<and> selectedStates (click nameless unnamed_sales) = ['''']
   \<and> selectedStates (click bare (click nameless unnamed_sales)) = []
   \<and> getProp (stateSales unnamed_sales) '''' = Number (Fin 5)
   \<and> fillColor (stateStyle unnamed_sales (Some nameless)) = ''rgb(128,255,255)''
   \<and> fillColor (stateStyle (click bare unnamed_sales) (Some nameless)) = ''#cccccc''"
proof -
  have h: "Option.bind (properties nameless) name = None"
    "Option.bind (properties bare) name = None"
    by (simp_all add: nameless_def bare_def)
  have s: "selectedStates unnamed_sales = []"
    "getProp (stateSales unnamed_sales) '''' = Number (Fin 5)"
    "minSales unnamed_sales = Fin 5" "maxSales unnamed_sales = Fin 10"
    by (simp_all add: unnamed_sales_def onSearchData_fields initialState_def getProp_def
        Math_min_def Math_max_def)
  have c: "interpolateColor (Fin 5) (Fin 5) (Fin 10) = ''rgb(128,255,255)''"
    by (simp add: color_eval)
  show ?thesis
    using h s c nameless_feature_region_empty [OF h, of unnamed_sales]
      nameless_feature_region_empty [OF h, of "click nameless unnamed_sales"]
      nameless_feature_region_empty [OF h, of "click bare unnamed_sales"]
    by (simp add: toggle_def)
qed

section \<open>FilterSync\<close>

text \<open>
  What the two handlers do once the handle is stored, whatever the readiness of the
  embed: they return without an error, the argument of \<^verbatim>\<open>trigger\<close> is one
  \<^verbatim>\<open>UpdateRuntimeFilters\<close> command carrying the current selection, respectively the empty
  list, the z-index of an attached panel is written, and \<^verbatim>\<open>hideLiveboard\<close> empties the
  selection. These writes are the handlers' own and do not consult the embed.
\<close>

lemma filterSync_handle_stored:
  assumes "embedRef_current st = Some e"
  shows "showLiveboard st =
           (st\<lparr>ref_zIndex := map_option (\<lambda>z. ''99999'') (ref_zIndex st),
               embedRef_current := Some (trigger e (store_state_filter (selectedStates st)))\<rparr>,
            None)"
    and "hideLiveboard st =
           (st\<lparr>ref_zIndex := map_option (\<lambda>z. ''0'') (ref_zIndex st),
               embedRef_current := Some (trigger e (store_state_filter [])),
               selectedStates := []\<rparr>,
            None)"
  using assms
  by (simp_all add: showLiveboard_def hideLiveboard_def set_zIndex_def Let_def
      split: option.splits)

text \<open>A ready embed accepts the command: exactly one event is added to what it holds.\<close>

lemma filterSync_ready_delivers:
  assumes "embedRef_current st = Some e" and "ready e"
  shows "embedRef_current (fst (showLiveboard st)) =
           Some (e\<lparr>triggered := triggered e @
             [UpdateRuntimeFilters [\<lparr>columnName = ''Store State'', operator = IN,
                                     filter_values = selectedStates st\<rparr>]]\<rparr>)"
    and "embedRef_current (fst (hideLiveboard st)) =
           Some (e\<lparr>triggered := triggered e @
             [UpdateRuntimeFilters [\<lparr>columnName = ''Store State'', operator = IN,
                                     filter_values = []\<rparr>]]\<rparr>)"
  using assms
  by (simp_all add: filterSync_handle_stored trigger_def store_state_filter_def)

text \<open>
  The unguarded \<^verbatim>\<open>embedRef.current.trigger\<close> on a null ref, beside the guarded
  \<^verbatim>\<open>ref.current\<close>: the z-index is written and a \<^verbatim>\<open>TypeError\<close> is thrown. This is the state
  before the embed component has stored its handle, not the state of an embed that is
  still initializing.
\<close>

lemma filterSync_null_ref_throws:
  "embedRef_current embed_absent = None
   \<and> showLiveboard embed_absent = (embed_absent\<lparr>ref_zIndex := Some ''99999''\<rparr>, Some TypeError)
   \<and> hideLiveboard embed_absent = (embed_absent, Some TypeError)"
  by (simp add: embed_absent_def initialState_def showLiveboard_def hideLiveboard_def
      set_zIndex_def)

text \<open>
  C6: invoking apply (\<^verbatim>\<open>showLiveboard\<close>) or clear (\<^verbatim>\<open>hideLiveboard\<close>) while the embed
  collaborator has not finished initializing is silent towards the caller and without
  effect on the embed: no error is raised or thrown, and the command is dropped, so the
  embed holds exactly what it held before and nothing is queued for retry.
\<close>

theorem filterSync_not_ready_silent:
  assumes "embedRef_current st = Some e" and "\<not> ready e"
  shows "snd (showLiveboard st) = None
       \<and> embedRef_current (fst (showLiveboard st)) = Some e
       \<and> snd (hideLiveboard st) = None
       \<and> embedRef_current (fst (hideLiveboard st)) = Some e"
  using assms by (simp add: filterSync_handle_stored trigger_def)

text \<open>
  Texas selected, the panel attached, the handle stored and the embed still
  initializing: neither handler throws and the embed has accepted nothing.
\<close>

theorem filterSync_not_ready_silent_witness:
  "embedRef_current embed_loading = Some \<lparr>ready = False, triggered = []\<rparr>
   \<and> \<not> ready \<lparr>ready = False, triggered = []\<rparr>
   \<and> snd (showLiveboard embed_loading) = None
   \<and> embedRef_current (fst (showLiveboard embed_loading))
       = Some \<lparr>ready = False, triggered = []\<rparr>
   \<and> snd (hideLiveboard embed_loading) = None
   \<and> embedRef_current (fst (hideLiveboard embed_loading))
       = Some \<lparr>ready = False, triggered = []\<rparr>"
proof -
  have h: "embedRef_current embed_loading = Some \<lparr>ready = False, triggered = []\<rparr>"
    "\<not> ready \<lparr>ready = False, triggered = []\<rparr>"
    by (simp_all add: embed_loading_def)
  show ?thesis using h filterSync_not_ready_silent [OF h] by simp
qed

text \<open>The same two calls on the ready embed hand the command over.\<close>

lemma filterSync_ready_example:
  "embedRef_current (fst (showLiveboard embed_ready)) =
     Some \<lparr>ready = True,
           triggered = [UpdateRuntimeFilters [\<lparr>columnName = ''Store State'', operator = IN,
                                                filter_values = [''Texas'']\<rparr>]]\<rparr>
   \<and> embedRef_current (fst (hideLiveboard embed_ready)) =
     Some \<lparr>ready = True,
           triggered = [UpdateRuntimeFilters [\<lparr>columnName = ''Store State'', operator = IN,
                                                filter_values = []\<rparr>]]\<rparr>
   \<and> selectedStates (fst (hideLiveboard embed_ready)) = []"
  by (simp add: embed_ready_def embed_absent_def initialState_def showLiveboard_def
      hideLiveboard_def set_zIndex_def trigger_def store_state_filter_def)

end
